theory Spec2Isabelle
  imports Main
begin

section \<open>JSON values and JavaScript truthiness\<close>

text \<open>
  Response bodies are parsed JSON. Numbers are taken as integers (JavaScript numbers agree
  with them below \<open>2^53\<close>); an object is the list of its own properties.
\<close>

datatype json =
    JNull
  | JBool bool
  | JNum int
  | JStr string
  | JArr "json list"
  | JObj "(string \<times> json) list"

text \<open>JavaScript truthiness of a JSON value: \<open>null\<close>, \<open>false\<close>, \<open>0\<close> and \<open>""\<close> are falsy,
  every array and every object is truthy.\<close>

fun truthy :: "json \<Rightarrow> bool" where
  "truthy JNull = False"
| "truthy (JBool b) = b"
| "truthy (JNum n) = (n \<noteq> 0)"
| "truthy (JStr s) = (s \<noteq> [])"
| "truthy (JArr xs) = True"
| "truthy (JObj kvs) = True"

text \<open>Truthiness of a \<open>string | null | undefined\<close> value, \<open>None\<close> standing for the absent one.\<close>

fun truthy_str :: "string option \<Rightarrow> bool" where
  "truthy_str None = False"
| "truthy_str (Some s) = (s \<noteq> [])"

text \<open>\<open>d.k\<close> on a value \<open>d\<close> that is not \<open>null\<close>, for the property names the program reads
  (\<open>results\<close>, \<open>id\<close>, \<open>username\<close>, \<open>email\<close>): \<open>None\<close> is \<open>undefined\<close>.\<close>

fun get_prop :: "string \<Rightarrow> json \<Rightarrow> json option" where
  "get_prop k (JObj kvs) = map_of kvs k"
| "get_prop k d = None"

text \<open>\<open>a || d\<close> with \<open>a\<close> a string or absent and \<open>d\<close> a string.\<close>

fun or_else :: "string option \<Rightarrow> string \<Rightarrow> string" where
  "or_else None d = d"
| "or_else (Some s) d = (if s \<noteq> [] then s else d)"

section \<open>API client (ApiService)\<close>

text \<open>An \<open>Error\<close> object with its message.\<close>

datatype js_error = Error (message: string)

text \<open>
  The body of an error response, as the program reads it: the fields \<open>detail\<close>,
  \<open>message\<close> and \<open>error\<close>, each a string or absent, and \<open>non_field_errors\<close>, a list of
  strings or absent. A body that is \<open>null\<close> or not an object has none of them
  (\<open>data?.detail\<close> is \<open>undefined\<close> then).
\<close>

record error_body =
  body_detail :: "string option"
  body_message :: "string option"
  body_error :: "string option"
  body_non_field_errors :: "string list option"

text \<open>
  What a \<open>catch\<close> clause of the client receives: \<open>response\<close> is the body of the error
  response when the server answered, \<open>request\<close> tells whether \<open>error.request\<close> is set
  (the request went out), \<open>err_message\<close> is \<open>error.message\<close>.
\<close>

record caught =
  response :: "error_body option"
  request :: bool
  err_message :: "string option"

definition handleError :: "caught \<Rightarrow> js_error" where
  "handleError e =
     (case response e of
        Some d \<Rightarrow>
          Error (or_else (body_detail d)
                  (or_else (body_message d)
                    (or_else (body_error d) ''An error occurred'')))
      | None \<Rightarrow>
          if request e then Error ''Network error - please check your connection''
          else Error (or_else (err_message e) ''An unexpected error occurred''))"

text \<open>The \<open>TypeError\<close> of a property read on \<open>null\<close>; its message \<open>tmsg\<close> is the engine's.\<close>

definition type_error :: "string \<Rightarrow> caught" where
  "type_error tmsg = \<lparr>response = None, request = False, err_message = Some tmsg\<rparr>"

text \<open>\<open>response.data.results || response.data\<close> for a body that is not \<open>null\<close>.\<close>

definition results_or_data :: "json \<Rightarrow> json" where
  "results_or_data d =
     (case get_prop ''results'' d of
        Some v \<Rightarrow> if truthy v then v else d
      | None \<Rightarrow> d)"

text \<open>The methods of the client declared to return \<open>Promise<any[]>\<close>.\<close>

datatype list_method =
    GetAIModels
  | GetModelRecommendations
  | GetGenerationRequests
  | GetCompositions
  | GetGenres
  | GetTracks
  | GetRecommendations
  | GetTrendingTracks
  | SearchTracks
  | GetUserFeed
  | GetUsers

text \<open>
  A list method on the outcome of its HTTP request: \<open>Inl e\<close> when the request is rejected
  with \<open>e\<close>, \<open>Inr d\<close> when it resolves with body \<open>d\<close>. \<open>getModelRecommendations\<close> returns
  \<open>response.data\<close>; the ten others return \<open>response.data.results || response.data\<close>, whose
  property read throws inside the \<open>try\<close> when the body is \<open>null\<close>.
\<close>

fun list_call :: "list_method \<Rightarrow> string \<Rightarrow> caught + json \<Rightarrow> js_error + json" where
  "list_call m tmsg (Inl e) = Inl (handleError e)"
| "list_call GetModelRecommendations tmsg (Inr d) = Inr d"
| "list_call m tmsg (Inr JNull) = Inl (handleError (type_error tmsg))"
| "list_call m tmsg (Inr d) = Inr (results_or_data d)"

text \<open>
  The methods that return \<open>response.data\<close> as it is, rethrowing a rejection through
  \<open>handleError\<close>; \<open>logout\<close> catches the rejection and only logs it.
\<close>

definition ApiService_login :: "caught + 'a \<Rightarrow> js_error + 'a" where
  "ApiService_login r = (case r of Inl e \<Rightarrow> Inl (handleError e) | Inr d \<Rightarrow> Inr d)"

definition ApiService_getUserProfile :: "caught + 'a \<Rightarrow> js_error + 'a" where
  "ApiService_getUserProfile r = (case r of Inl e \<Rightarrow> Inl (handleError e) | Inr d \<Rightarrow> Inr d)"

definition ApiService_likeComposition :: "caught + 'a \<Rightarrow> js_error + 'a" where
  "ApiService_likeComposition r = (case r of Inl e \<Rightarrow> Inl (handleError e) | Inr d \<Rightarrow> Inr d)"

definition ApiService_logout :: "caught + 'a \<Rightarrow> js_error + unit" where
  "ApiService_logout r = (case r of Inl e \<Rightarrow> Inr () | Inr d \<Rightarrow> Inr ())"

section \<open>Session Manager, mobile (AuthContext)\<close>

text \<open>
  The state of the provider: the React state \<open>user\<close>, \<open>token\<close>, \<open>loading\<close>, and \<open>stored\<close>,
  the value under the key \<open>auth_token\<close> of the device storage. A user object is the map of
  its properties. Each operation runs on the state the previous one left, takes the
  outcome of every HTTP request it makes as an argument (\<open>Inl\<close> a rejection, \<open>Inr\<close> the
  body), and returns the state it leaves together with its own result. Storage reads and
  writes succeed.
\<close>

record session =
  user :: "(string \<rightharpoonup> json) option"
  token :: "string option"
  stored :: "string option"
  loading :: bool

text \<open>The body of a successful login: \<open>{ token, user_id, username }\<close>.\<close>

record login_response =
  resp_token :: string
  resp_user_id :: json
  resp_username :: json

text \<open>The provider as mounted (the \<open>useState\<close> initial values) over a given storage.\<close>

definition initial_state :: "string option \<Rightarrow> session" where
  "initial_state st = \<lparr>user = None, token = None, stored = st, loading = True\<rparr>"

definition isAuthenticated :: "session \<Rightarrow> bool" where
  "isAuthenticated s = (truthy_str (token s) \<and> user s \<noteq> None)"

text \<open>\<open>user.k\<close>, with \<open>None\<close> when there is no user or no such property.\<close>

definition user_field :: "string \<Rightarrow> session \<Rightarrow> json option" where
  "user_field k s = (case user s of None \<Rightarrow> None | Some u \<Rightarrow> u k)"

text \<open>
  \<open>loadStoredAuth\<close>; the profile body is a JSON object, given by its properties. The
  \<open>catch\<close> clause removes the stored token and nothing else.
\<close>

definition loadStoredAuth :: "caught + (string \<times> json) list \<Rightarrow> session \<Rightarrow> session" where
  "loadStoredAuth pr s =
     (let storedToken = stored s in
      if truthy_str storedToken then
        (let s1 = s\<lparr>token := storedToken\<rparr> in
         case ApiService_getUserProfile pr of
           Inr userProfile \<Rightarrow> s1\<lparr>user := Some (map_of userProfile), loading := False\<rparr>
         | Inl e \<Rightarrow> s1\<lparr>stored := None, loading := False\<rparr>)
      else s\<lparr>loading := False\<rparr>)"

text \<open>
  \<open>login\<close>: the token is set and stored before the profile is fetched; the user is
  \<open>{ id: user_id, username: returnedUsername, ...userProfile }\<close>, where the properties of
  the profile override the two before them.
\<close>

definition login ::
  "caught + login_response \<Rightarrow> caught + (string \<times> json) list \<Rightarrow> session
     \<Rightarrow> (js_error + unit) \<times> session" where
  "login lr pr s =
     (case ApiService_login lr of
        Inl e \<Rightarrow> (Inl (Error (or_else (Some (message e)) ''Login failed'')), s)
      | Inr r \<Rightarrow>
          (let authToken = resp_token r;
               s1 = s\<lparr>token := Some authToken, stored := Some authToken\<rparr>
           in case ApiService_getUserProfile pr of
                Inl e \<Rightarrow> (Inl (Error (or_else (Some (message e)) ''Login failed'')), s1)
              | Inr userProfile \<Rightarrow>
                  (Inr (),
                   s1\<lparr>user := Some ([''id'' \<mapsto> resp_user_id r,
                                      ''username'' \<mapsto> resp_username r] ++ map_of userProfile)\<rparr>)))"

text \<open>\<open>logout\<close>: the \<open>finally\<close> clause runs whatever the \<open>try\<close> did.\<close>

definition logout :: "caught + json \<Rightarrow> session \<Rightarrow> (js_error + unit) \<times> session" where
  "logout r s =
     (let cleared = s\<lparr>user := None, token := None, stored := None\<rparr> in
      case (if truthy_str (token s) then ApiService_logout r else Inr ()) of
        Inl e \<Rightarrow> (Inr (), cleared)
      | Inr u \<Rightarrow> (Inr (), cleared))"

section \<open>Session Manager, web (Auth.tsx)\<close>

record web_session =
  web_user :: "(string \<rightharpoonup> json) option"
  web_token :: "string option"
  web_stored :: "string option"

text \<open>The provider as mounted: the token state starts from \<open>localStorage\<close>.\<close>

definition web_initial_state :: "string option \<Rightarrow> web_session" where
  "web_initial_state st = \<lparr>web_user = None, web_token = st, web_stored = st\<rparr>"

text \<open>\<open>logout\<close>: the request is sent without waiting and its rejection is caught and dropped.\<close>

definition web_logout :: "caught + json \<Rightarrow> web_session \<Rightarrow> web_session" where
  "web_logout r s = s\<lparr>web_user := None, web_token := None, web_stored := None\<rparr>"

text \<open>\<open>v || d\<close> for a property read \<open>v\<close> and a default \<open>d\<close>.\<close>

fun or_json :: "json option \<Rightarrow> json \<Rightarrow> json" where
  "or_json None d = d"
| "or_json (Some v) d = (if truthy v then v else d)"

text \<open>
  The effect that loads the user, which runs after the render of a changed token. It tests
  \<open>token && !user\<close> on the state of that render and sends the profile request;
  \<open>web_load_user_settle\<close> is what its \<open>then\<close> and \<open>catch\<close> do, on the state current when the
  request settles. \<open>lr\<close> is the outcome of the logout request made when the profile request
  fails. Reading a property of a \<open>null\<close> body throws inside \<open>then\<close>, which the \<open>catch\<close> after
  it receives.
\<close>

definition web_load_user_settle ::
  "caught + json \<Rightarrow> caught + json \<Rightarrow> web_session \<Rightarrow> web_session" where
  "web_load_user_settle pr lr s =
     (case pr of
        Inl e \<Rightarrow> web_logout lr s
      | Inr JNull \<Rightarrow> web_logout lr s
      | Inr d \<Rightarrow>
          s\<lparr>web_user := Some [''id'' \<mapsto> or_json (get_prop ''id'' d) (JNum 0),
                               ''username'' \<mapsto> or_json (get_prop ''username'' d) (JStr ''''),
                               ''email'' \<mapsto> or_json (get_prop ''email'' d) (JStr ''''),
                               ''profile'' \<mapsto> d]\<rparr>)"

text \<open>The effect on a state that no other operation changes while the request is out.\<close>

definition web_load_user :: "caught + json \<Rightarrow> caught + json \<Rightarrow> web_session \<Rightarrow> web_session" where
  "web_load_user pr lr s =
     (if truthy_str (web_token s) \<and> web_user s = None then web_load_user_settle pr lr s
      else s)"

text \<open>
  \<open>login\<close>: the message of a failure is
  \<open>error.response?.data?.non_field_errors?.[0] || 'Login failed'\<close>. Reading \<open>data.email\<close> of a
  \<open>null\<close> profile body throws inside the \<open>try\<close>; an absent \<open>email\<close> leaves the property
  undefined.
\<close>

definition web_login_message :: "caught \<Rightarrow> string" where
  "web_login_message e =
     or_else (case response e of
                None \<Rightarrow> None
              | Some d \<Rightarrow>
                  (case body_non_field_errors d of
                     None \<Rightarrow> None
                   | Some [] \<Rightarrow> None
                   | Some (m # ms) \<Rightarrow> Some m))
       ''Login failed''"

text \<open>
  \<open>login\<close>, up to the point where every request it has caused has settled. When the login
  request is rejected nothing is set. When it resolves, \<open>setToken\<close> and the storage write
  are done and the profile request of \<open>login\<close> goes out (outcome \<open>pr\<close>); if the token has
  changed, the render that follows runs the effect above, whose own profile request
  (outcome \<open>epr\<close>, and \<open>elr\<close> for its logout request) is then out at the same time.
  \<open>effect_first\<close> tells which of the two requests settles first. The result is that of the
  promise \<open>login\<close> returns.
\<close>

definition web_login ::
  "caught + login_response \<Rightarrow> caught + json \<Rightarrow> caught + json \<Rightarrow> caught + json \<Rightarrow> bool
     \<Rightarrow> web_session \<Rightarrow> (js_error + unit) \<times> web_session" where
  "web_login lr pr epr elr effect_first s =
     (case lr of
        Inl e \<Rightarrow> (Inl (Error (web_login_message e)), s)
      | Inr r \<Rightarrow>
          (let authToken = resp_token r;
               s1 = s\<lparr>web_token := Some authToken, web_stored := Some authToken\<rparr>;
               effect =
                 (if web_token s \<noteq> Some authToken \<and> truthy_str (web_token s1) \<and> web_user s1 = None
                  then web_load_user_settle epr elr
                  else (\<lambda>st. st));
               own =
                 (case pr of
                    Inl e \<Rightarrow> (Inl (Error (web_login_message e)), \<lambda>st. st)
                  | Inr JNull \<Rightarrow> (Inl (Error ''Login failed''), \<lambda>st. st)
                  | Inr d \<Rightarrow>
                      (Inr (),
                       \<lambda>st. st\<lparr>web_user := Some ([''id'' \<mapsto> resp_user_id r,
                                                   ''username'' \<mapsto> resp_username r,
                                                   ''profile'' \<mapsto> d]
                                                    (''email'' := get_prop ''email'' d))\<rparr>))
           in (fst own,
               if effect_first then snd own (effect s1) else effect (snd own s1))))"

section \<open>Playback Controller (AudioContext)\<close>

datatype RepeatMode = Off | Track | Queue

text \<open>The calls made on the device player, in the order they are made.\<close>

datatype 'a player_call = Reset | Add "'a list" | SetRepeatMode RepeatMode

text \<open>
  The React state of the provider, and \<open>player_calls\<close>, the calls made on the device player
  so far. Each operation takes the state it runs on and, for every player call it awaits,
  whether that call resolves (\<open>True\<close>) or rejects.
\<close>

record 'a audio_state =
  currentTrack :: "'a option"
  isPlaying :: bool
  playlist :: "'a list"
  shuffle :: bool
  repeatMode :: RepeatMode
  player_calls :: "'a player_call list"

definition setPlaylist :: "bool \<Rightarrow> bool \<Rightarrow> 'a list \<Rightarrow> 'a audio_state \<Rightarrow> 'a audio_state" where
  "setPlaylist reset_ok add_ok tracks s =
     (let s1 = s\<lparr>player_calls := player_calls s @ [Reset]\<rparr> in
      if \<not> reset_ok then s1
      else
        (let s2 = s1\<lparr>player_calls := player_calls s1 @ [Add tracks]\<rparr> in
         if \<not> add_ok then s2
         else
           (let s3 = s2\<lparr>playlist := tracks\<rparr> in
            if length tracks > 0 then s3\<lparr>currentTrack := Some (tracks ! 0)\<rparr> else s3)))"

definition toggleShuffle :: "'a audio_state \<Rightarrow> 'a audio_state" where
  "toggleShuffle s = (let newShuffleState = \<not> shuffle s in s\<lparr>shuffle := newShuffleState\<rparr>)"

text \<open>
  \<open>toggleRepeat\<close> computes the new mode from the \<open>repeatMode\<close> of the render that made the
  function the caller holds, given here as \<open>captured\<close>; a caller that invokes it from the
  render showing the state \<open>s\<close> passes \<open>repeatMode s\<close>.
\<close>

definition toggleRepeat :: "RepeatMode \<Rightarrow> bool \<Rightarrow> 'a audio_state \<Rightarrow> 'a audio_state" where
  "toggleRepeat captured set_ok s =
     (let newRepeatMode = (case captured of Off \<Rightarrow> Track | Track \<Rightarrow> Queue | Queue \<Rightarrow> Off);
          s1 = s\<lparr>player_calls := player_calls s @ [SetRepeatMode newRepeatMode]\<rparr>
      in if set_ok then s1\<lparr>repeatMode := newRepeatMode\<rparr> else s1)"

section \<open>Home screen: liking a composition\<close>

text \<open>
  The counters of a composition are JavaScript numbers, that is IEEE doubles, holding
  integers. Every integer up to \<open>2^53\<close> in magnitude is a double; above, a double has 53
  significant bits, so that the doubles around the magnitude \<open>a\<close> are the multiples of
  \<open>ulp a\<close>. \<open>round_double m\<close> is the double nearest to the integer \<open>m\<close>, a tie going to the
  even multiple. \<open>js_add x y\<close> is \<open>x + y\<close> on two such numbers: the exact sum, rounded (no
  sum of the program comes near the overflow threshold).
\<close>

function ulp :: "int \<Rightarrow> int" where
  "ulp a = (if a < 2 ^ 53 then 1 else 2 * ulp (a div 2))"
  by pat_completeness auto
termination
  by (relation "measure nat") auto

declare ulp.simps [simp del]

definition round_double :: "int \<Rightarrow> int" where
  "round_double m =
     (let a = \<bar>m\<bar> in
      if a \<le> 2 ^ 53 then m
      else
        (let u = ulp a;
             q = a div u;
             r = a mod u;
             h = u div 2;
             q' = (if r < h then q else if h < r then q + 1 else if even q then q else q + 1)
         in sgn m * (q' * u)))"

definition js_add :: "int \<Rightarrow> int \<Rightarrow> int" where
  "js_add x y = round_double (x + y)"

text \<open>
  A composition as the screen holds it; \<open>comp_id\<close> is its \<open>id\<close>, \<open>owner\<close> its
  \<open>user.username\<close>, \<open>genre\<close> its \<open>genre?.name\<close>.
\<close>

record composition =
  comp_id :: int
  title :: string
  owner :: string
  genre :: "string option"
  duration :: int
  tempo :: int
  key_signature :: string
  like_count :: int
  play_count :: int
  created_at :: string
  audio_file :: "string option"

text \<open>
  \<open>handleLikeComposition\<close> on the token of the session, the outcome of the like request and
  the list held by the screen: it returns the list it leaves and the alert it shows, if any.
\<close>

definition handleLikeComposition ::
  "string option \<Rightarrow> caught + json \<Rightarrow> int \<Rightarrow> composition list
     \<Rightarrow> composition list \<times> (string \<times> string) option" where
  "handleLikeComposition tok lr compositionId prev =
     (if \<not> truthy_str tok then
        (prev, Some (''Authentication Required'', ''Please log in to like compositions.''))
      else
        (case ApiService_likeComposition lr of
           Inr d \<Rightarrow>
             (map (\<lambda>comp. if comp_id comp = compositionId
                           then comp\<lparr>like_count := js_add (like_count comp) 1\<rparr>
                           else comp) prev,
              None)
         | Inl e \<Rightarrow>
             (prev, Some (''Error'', or_else (Some (message e)) ''Failed to like composition''))))"

section \<open>Properties\<close>

subsection \<open>Auxiliary facts\<close>

lemma or_else_nonempty: "d \<noteq> [] \<Longrightarrow> or_else a d \<noteq> []"
  by (cases a) auto

lemma web_login_message_nonempty: "web_login_message e \<noteq> []"
  unfolding web_login_message_def by (rule or_else_nonempty) simp

text \<open>
  A failed profile request while restoring a stored token: the mobile client removes the
  stored token and keeps the token in memory; the web client goes through its \<open>logout\<close>
  and clears the session.
\<close>

lemma mobile_restore_failure_state:
  "truthy_str (stored s) \<Longrightarrow>
   loadStoredAuth (Inl e) s = s\<lparr>token := stored s, stored := None, loading := False\<rparr>"
  by (simp add: loadStoredAuth_def ApiService_getUserProfile_def)

lemma web_restore_failure_state:
  "t \<noteq> [] \<Longrightarrow> web_load_user (Inl e) lr (web_initial_state (Some t)) =
     \<lparr>web_user = None, web_token = None, web_stored = None\<rparr>"
  by (simp add: web_load_user_def web_load_user_settle_def web_initial_state_def web_logout_def)

text \<open>
  A web login whose token is accepted and new, on a session without user, and whose two
  profile requests both fail: the effect's \<open>catch\<close> logs out and the session ends
  cleared.
\<close>

lemma web_login_profile_failure_settles:
  "web_token s \<noteq> Some (resp_token r) \<Longrightarrow> resp_token r \<noteq> [] \<Longrightarrow> web_user s = None \<Longrightarrow>
   snd (web_login (Inr r) (Inl e) (Inl e') elr effect_first s) =
     \<lparr>web_user = None, web_token = None, web_stored = None\<rparr>"
  by (simp add: web_login_def web_load_user_settle_def web_logout_def Let_def)

text \<open>
  Below \<open>2^53\<close> the sum with one is exact.
\<close>

lemma round_double_safe: "\<bar>m\<bar> \<le> 2 ^ 53 \<Longrightarrow> round_double m = m"
  by (simp add: round_double_def Let_def)

lemma js_add_one_safe: "\<bar>n\<bar> < 2 ^ 53 \<Longrightarrow> js_add n 1 = n + 1"
  unfolding js_add_def by (rule round_double_safe) simp

subsection \<open>Session Manager\<close>

text \<open>
  Claim C1 (as amended). A login that fails always surfaces an error with a non-empty
  message. When the login request itself fails (invalid credentials, or no answer to it),
  the token in memory, the user and the stored token are exactly as before the call. This
  holds for the mobile and for the web client.
\<close>

theorem login_failure_state:
  "(login lr pr s = (Inl err, s') \<longrightarrow>
      message err \<noteq> [] \<and> ((\<exists>e. lr = Inl e) \<longrightarrow> s' = s)) \<and>
   (web_login lr wpr epr elr effect_first ws = (Inl werr, ws') \<longrightarrow>
      message werr \<noteq> [] \<and> ((\<exists>e. lr = Inl e) \<longrightarrow> ws' = ws))"
proof (intro conjI impI)
  assume a: "login lr pr s = (Inl err, s')"
  show "message err \<noteq> []"
    using a by (auto simp: login_def Let_def split: sum.splits if_splits)
  show "s' = s" if "\<exists>e. lr = Inl e"
    using a that by (auto simp: login_def ApiService_login_def)
next
  assume a: "web_login lr wpr epr elr effect_first ws = (Inl werr, ws')"
  show "message werr \<noteq> []"
    using a web_login_message_nonempty
    by (auto simp: web_login_def Let_def split: sum.splits json.splits)
  show "ws' = ws" if "\<exists>e. lr = Inl e"
    using a that by (auto simp: web_login_def)
qed

text \<open>
  Rejected credentials on a session that holds the token \<open>old\<close>, on both clients.
\<close>

theorem login_failure_state_witness:
  "login (Inl \<lparr>response = Some \<lparr>body_detail = Some ''Invalid credentials'', body_message = None,
                                   body_error = None, body_non_field_errors = Some [''Unable to log in'']\<rparr>,
                request = True, err_message = None\<rparr>)
         (Inr [])
         \<lparr>user = None, token = Some ''old'', stored = Some ''old'', loading = False\<rparr>
     = (Inl (Error ''Invalid credentials''),
        \<lparr>user = None, token = Some ''old'', stored = Some ''old'', loading = False\<rparr>) \<and>
   web_login (Inl \<lparr>response = Some \<lparr>body_detail = Some ''Invalid credentials'', body_message = None,
                                   body_error = None, body_non_field_errors = Some [''Unable to log in'']\<rparr>,
                request = True, err_message = None\<rparr>)
         (Inr (JObj [])) (Inr (JObj [])) (Inr JNull) True
         \<lparr>web_user = None, web_token = Some ''old'', web_stored = Some ''old''\<rparr>
     = (Inl (Error ''Unable to log in''),
        \<lparr>web_user = None, web_token = Some ''old'', web_stored = Some ''old''\<rparr>) \<and>
   message (Error ''Invalid credentials'') \<noteq> [] \<and> message (Error ''Unable to log in'') \<noteq> []"
proof -
  let ?lr = "Inl \<lparr>response = Some \<lparr>body_detail = Some ''Invalid credentials'', body_message = None,
                                   body_error = None, body_non_field_errors = Some [''Unable to log in'']\<rparr>,
                request = True, err_message = None\<rparr> :: caught + login_response"
  let ?s = "\<lparr>user = None, token = Some ''old'', stored = Some ''old'', loading = False\<rparr>"
  let ?ws = "\<lparr>web_user = None, web_token = Some ''old'', web_stored = Some ''old''\<rparr>"
  have m: "login ?lr (Inr []) ?s = (Inl (Error ''Invalid credentials''), ?s)"
    by (simp add: login_def ApiService_login_def handleError_def)
  have w: "web_login ?lr (Inr (JObj [])) (Inr (JObj [])) (Inr JNull) True ?ws
             = (Inl (Error ''Unable to log in''), ?ws)"
    by (simp add: web_login_def web_login_message_def)
  show ?thesis
    using m w
      login_failure_state [where lr = ?lr and pr = "Inr []" and s = ?s
        and err = "Error ''Invalid credentials''" and s' = ?s
        and wpr = "Inr (JObj [])" and epr = "Inr (JObj [])" and elr = "Inr JNull"
        and effect_first = True and ws = ?ws and werr = "Error ''Unable to log in''"
        and ws' = ?ws]
    by simp
qed

text \<open>
  Claim C1 as stated fails: on the mobile client the login request succeeds, the profile
  request gets no answer, the call fails with the network error, and the token in memory
  and the stored token have changed from \<open>old\<close> to \<open>new\<close>.
\<close>

theorem login_partial_update_counterexample:
  "fst (login (Inr \<lparr>resp_token = ''new'', resp_user_id = JNum 2, resp_username = JStr ''bob''\<rparr>)
              (Inl \<lparr>response = None, request = True, err_message = None\<rparr>)
              \<lparr>user = Some [''id'' \<mapsto> JNum 1], token = Some ''old'', stored = Some ''old'',
                loading = False\<rparr>)
     = Inl (Error ''Network error - please check your connection'') \<and>
   token (snd (login (Inr \<lparr>resp_token = ''new'', resp_user_id = JNum 2, resp_username = JStr ''bob''\<rparr>)
              (Inl \<lparr>response = None, request = True, err_message = None\<rparr>)
              \<lparr>user = Some [''id'' \<mapsto> JNum 1], token = Some ''old'', stored = Some ''old'',
                loading = False\<rparr>)) = Some ''new'' \<and>
   stored (snd (login (Inr \<lparr>resp_token = ''new'', resp_user_id = JNum 2, resp_username = JStr ''bob''\<rparr>)
              (Inl \<lparr>response = None, request = True, err_message = None\<rparr>)
              \<lparr>user = Some [''id'' \<mapsto> JNum 1], token = Some ''old'', stored = Some ''old'',
                loading = False\<rparr>)) = Some ''new'' \<and>
   snd (login (Inr \<lparr>resp_token = ''new'', resp_user_id = JNum 2, resp_username = JStr ''bob''\<rparr>)
              (Inl \<lparr>response = None, request = True, err_message = None\<rparr>)
              \<lparr>user = Some [''id'' \<mapsto> JNum 1], token = Some ''old'', stored = Some ''old'',
                loading = False\<rparr>)
     \<noteq> \<lparr>user = Some [''id'' \<mapsto> JNum 1], token = Some ''old'', stored = Some ''old'',
                loading = False\<rparr>"
  by (simp add: login_def ApiService_login_def ApiService_getUserProfile_def handleError_def
      Let_def)

text \<open>
  Claim C2. From every session state and whatever the outcome of the remote invalidation
  request, \<open>logout\<close> returns normally and leaves no user, no token in memory and no
  stored token, so that the session is not authenticated; the web client's \<open>logout\<close>
  leaves the same.
\<close>

theorem logout_clears_session:
  "fst (logout r s) = Inr () \<and>
   user (snd (logout r s)) = None \<and> token (snd (logout r s)) = None \<and>
   stored (snd (logout r s)) = None \<and> \<not> isAuthenticated (snd (logout r s)) \<and>
   web_user (web_logout r ws) = None \<and> web_token (web_logout r ws) = None \<and>
   web_stored (web_logout r ws) = None"
  by (simp add: logout_def ApiService_logout_def isAuthenticated_def web_logout_def Let_def
      split: sum.splits)

text \<open>
  Claim C3. The claim asks that a failed profile request during restoration clears the
  stored token and the session in memory. On the mobile client, started over the stored
  token \<open>abc\<close> with a profile request that the server rejects, \<open>loadStoredAuth\<close>
  removes the stored token and leaves the token \<open>abc\<close> in memory.
\<close>

theorem loadStoredAuth_failure_keeps_token:
  "loadStoredAuth
     (Inl \<lparr>response = Some \<lparr>body_detail = Some ''Invalid token.'', body_message = None,
                              body_error = None, body_non_field_errors = None\<rparr>,
           request = True, err_message = None\<rparr>)
     (initial_state (Some ''abc''))
   = \<lparr>user = None, token = Some ''abc'', stored = None, loading = False\<rparr>"
  by (simp add: loadStoredAuth_def initial_state_def ApiService_getUserProfile_def)

text \<open>
  Claim C4 (as amended). After a successful login with a non-empty token, restarting the
  provider over the stored token and restoring with a successful profile request gives
  the same token and a user that is exactly the profile fetched at restoration. Every
  property that the profile fetched at login carried and that the profile fetched at
  restoration carries with the same value, \<open>id\<close> and \<open>username\<close> among them, is the same
  in the user before and after.
\<close>

theorem restore_after_login:
  assumes "resp_token r \<noteq> []"
  shows "fst (login (Inr r) (Inr p) s) = Inr () \<and>
         (let s1 = snd (login (Inr r) (Inr p) s);
              s3 = loadStoredAuth (Inr p') (initial_state (stored s1))
          in token s3 = token s1 \<and> stored s3 = stored s1 \<and> user s3 = Some (map_of p') \<and>
             (\<forall>k. map_of p k \<noteq> None \<and> map_of p' k = map_of p k
                   \<longrightarrow> user_field k s3 = user_field k s1))"
  using assms
  by (auto simp: login_def loadStoredAuth_def initial_state_def ApiService_login_def
      ApiService_getUserProfile_def user_field_def Let_def map_add_def)

text \<open>
  The round trip at a profile that carries \<open>id\<close> and \<open>username\<close>.
\<close>

theorem restore_after_login_witness:
  "resp_token \<lparr>resp_token = ''tok'', resp_user_id = JNum 7, resp_username = JStr ''ann''\<rparr> \<noteq> [] \<and>
   user_field ''id''
     (loadStoredAuth (Inr [(''id'', JNum 7), (''username'', JStr ''ann'')])
        (initial_state (stored
          (snd (login (Inr \<lparr>resp_token = ''tok'', resp_user_id = JNum 7, resp_username = JStr ''ann''\<rparr>)
                 (Inr [(''id'', JNum 7), (''username'', JStr ''ann'')]) (initial_state None))))))
   = user_field ''id''
       (snd (login (Inr \<lparr>resp_token = ''tok'', resp_user_id = JNum 7, resp_username = JStr ''ann''\<rparr>)
                 (Inr [(''id'', JNum 7), (''username'', JStr ''ann'')]) (initial_state None)))"
  using restore_after_login
    [where r = "\<lparr>resp_token = ''tok'', resp_user_id = JNum 7, resp_username = JStr ''ann''\<rparr>"
       and p = "[(''id'', JNum 7), (''username'', JStr ''ann'')]"
       and p' = "[(''id'', JNum 7), (''username'', JStr ''ann'')]"
       and s = "initial_state None"]
  by (simp add: Let_def)

text \<open>
  Claim C4 as stated fails: with a profile that carries no \<open>id\<close>, the user after login
  has the \<open>id\<close> 7 of the login response and the user after restoration has none.
\<close>

theorem restore_after_login_counterexample:
  "user_field ''id''
     (snd (login (Inr \<lparr>resp_token = ''tok'', resp_user_id = JNum 7, resp_username = JStr ''ann''\<rparr>)
                 (Inr [(''email'', JStr ''ann@example.org'')]) (initial_state None)))
     = Some (JNum 7) \<and>
   user_field ''id''
     (loadStoredAuth (Inr [(''email'', JStr ''ann@example.org'')])
        (initial_state (stored
          (snd (login (Inr \<lparr>resp_token = ''tok'', resp_user_id = JNum 7, resp_username = JStr ''ann''\<rparr>)
                 (Inr [(''email'', JStr ''ann@example.org'')]) (initial_state None))))))
     = None"
  by (simp add: login_def loadStoredAuth_def initial_state_def ApiService_login_def
      ApiService_getUserProfile_def user_field_def map_add_def Let_def)

subsection \<open>API client\<close>

text \<open>
  Claim C5 (as amended). For an error response, the message is taken from the fields
  \<open>detail\<close>, \<open>message\<close>, \<open>error\<close> of the body in this order of priority, a field
  being present when it holds a non-empty string, and is the generic message
  \<open>An error occurred\<close> when none is present. When no response came back and the request
  had gone out, the message is the fixed network message, which is neither of the two
  generic ones; when the request had not gone out either, it is the message of the caught
  error, or \<open>An unexpected error occurred\<close>.
\<close>

theorem handleError_message_priority:
  "(response e = Some d \<longrightarrow>
      (\<forall>s. body_detail d = Some s \<and> s \<noteq> [] \<longrightarrow> handleError e = Error s) \<and>
      (\<forall>s. \<not> truthy_str (body_detail d) \<and> body_message d = Some s \<and> s \<noteq> []
            \<longrightarrow> handleError e = Error s) \<and>
      (\<forall>s. \<not> truthy_str (body_detail d) \<and> \<not> truthy_str (body_message d) \<and>
            body_error d = Some s \<and> s \<noteq> [] \<longrightarrow> handleError e = Error s) \<and>
      (\<not> truthy_str (body_detail d) \<and> \<not> truthy_str (body_message d) \<and>
       \<not> truthy_str (body_error d) \<longrightarrow> handleError e = Error ''An error occurred'')) \<and>
   (response e = None \<and> request e \<longrightarrow>
      handleError e = Error ''Network error - please check your connection'' \<and>
      handleError e \<noteq> Error ''An error occurred'' \<and>
      handleError e \<noteq> Error ''An unexpected error occurred'') \<and>
   (response e = None \<and> \<not> request e \<longrightarrow>
      handleError e = Error (or_else (err_message e) ''An unexpected error occurred''))"
  by (cases "body_detail d"; cases "body_message d"; cases "body_error d")
     (auto simp: handleError_def)

text \<open>
  The three kinds of result at concrete inputs.
\<close>

theorem handleError_message_priority_witness:
  "handleError \<lparr>response = Some \<lparr>body_detail = Some ''Not found.'', body_message = Some ''m'',
                                  body_error = None, body_non_field_errors = None\<rparr>,
                request = True, err_message = None\<rparr> = Error ''Not found.'' \<and>
   handleError \<lparr>response = Some \<lparr>body_detail = None, body_message = None,
                                  body_error = Some ''Quota exceeded'', body_non_field_errors = None\<rparr>,
                request = True, err_message = None\<rparr> = Error ''Quota exceeded'' \<and>
   handleError \<lparr>response = None, request = True, err_message = Some ''timeout of 10000ms exceeded''\<rparr>
     = Error ''Network error - please check your connection''"
  using handleError_message_priority
    [where e = "\<lparr>response = Some \<lparr>body_detail = Some ''Not found.'', body_message = Some ''m'',
                                  body_error = None, body_non_field_errors = None\<rparr>,
                request = True, err_message = None\<rparr>"
       and d = "\<lparr>body_detail = Some ''Not found.'', body_message = Some ''m'',
                                  body_error = None, body_non_field_errors = None\<rparr>"]
    handleError_message_priority
    [where e = "\<lparr>response = Some \<lparr>body_detail = None, body_message = None,
                                  body_error = Some ''Quota exceeded'', body_non_field_errors = None\<rparr>,
                request = True, err_message = None\<rparr>"
       and d = "\<lparr>body_detail = None, body_message = None,
                                  body_error = Some ''Quota exceeded'', body_non_field_errors = None\<rparr>"]
    handleError_message_priority
    [where e = "\<lparr>response = None, request = True, err_message = Some ''timeout of 10000ms exceeded''\<rparr>"]
  by simp

text \<open>
  Claim C5 as stated fails in its second half. A failure that carries neither a response
  nor a request (nothing was sent, no response was received) does not give the network
  error; and the network error is the same value as the error of a response whose
  \<open>detail\<close> is the network message, so it is not a result of a kind of its own.
\<close>

theorem handleError_network_counterexample:
  "handleError \<lparr>response = None, request = False, err_message = None\<rparr>
     = Error ''An unexpected error occurred'' \<and>
   handleError \<lparr>response = None, request = True, err_message = None\<rparr>
     = handleError \<lparr>response = Some \<lparr>body_detail = Some ''Network error - please check your connection'',
                                      body_message = None, body_error = None,
                                      body_non_field_errors = None\<rparr>,
                    request = True, err_message = None\<rparr>"
  by (simp add: handleError_def)

text \<open>
  Claim C6 (as amended). Each list method other than \<open>getModelRecommendations\<close> returns
  the array \<open>xs\<close> both for a body that is an object whose \<open>results\<close> is \<open>xs\<close> and for
  the body \<open>xs\<close> itself; \<open>getModelRecommendations\<close> returns every body as it is.
\<close>

theorem list_call_unwraps_results:
  "(m \<noteq> GetModelRecommendations \<longrightarrow>
      (map_of kvs ''results'' = Some (JArr xs) \<longrightarrow>
         list_call m tmsg (Inr (JObj kvs)) = Inr (JArr xs)) \<and>
      list_call m tmsg (Inr (JObj [(''results'', JArr xs)])) = Inr (JArr xs) \<and>
      list_call m tmsg (Inr (JArr xs)) = Inr (JArr xs)) \<and>
   list_call GetModelRecommendations tmsg (Inr d) = Inr d"
  by (cases m) (simp_all add: results_or_data_def)

text \<open>
  \<open>getCompositions\<close> on an envelope and on a bare array.
\<close>

theorem list_call_unwraps_results_witness:
  "GetCompositions \<noteq> GetModelRecommendations \<and>
   map_of [(''count'', JNum 2), (''results'', JArr [JStr ''a'', JStr ''b''])] ''results''
     = Some (JArr [JStr ''a'', JStr ''b'']) \<and>
   list_call GetCompositions '''' (Inr (JObj [(''count'', JNum 2), (''results'', JArr [JStr ''a'', JStr ''b''])]))
     = Inr (JArr [JStr ''a'', JStr ''b'']) \<and>
   list_call GetCompositions '''' (Inr (JArr [JStr ''a'', JStr ''b''])) = Inr (JArr [JStr ''a'', JStr ''b''])"
  using list_call_unwraps_results
    [where m = GetCompositions and tmsg = "''''"
       and kvs = "[(''count'', JNum 2), (''results'', JArr [JStr ''a'', JStr ''b''])]"
       and xs = "[JStr ''a'', JStr ''b'']"]
  by simp

text \<open>
  Claim C6 as stated fails: \<open>getModelRecommendations\<close> returns the envelope and not the
  array in it.
\<close>

theorem list_call_counterexample:
  "list_call GetModelRecommendations '''' (Inr (JObj [(''results'', JArr [JNum 1, JNum 2])]))
     \<noteq> Inr (JArr [JNum 1, JNum 2])"
  by simp

subsection \<open>Playback Controller\<close>

text \<open>
  Claim C7 (as amended). A \<open>toggleRepeat\<close> that is invoked from the render showing the
  current repeat mode and whose call on the player resolves moves the repeat mode one step
  along off, track, queue, off; three such invocations, each from the render that follows
  the state update of the one before, bring it back to where it started. A \<open>toggleRepeat\<close>
  whose call on the player rejects leaves the repeat mode as it was, and three invocations
  that resolve and were all made from one render leave the mode one step after the one
  that render showed.
\<close>

theorem toggleRepeat_cycle:
  "repeatMode (toggleRepeat (repeatMode s) True s) =
     (case repeatMode s of Off \<Rightarrow> Track | Track \<Rightarrow> Queue | Queue \<Rightarrow> Off) \<and>
   (let s1 = toggleRepeat (repeatMode s) True s;
        s2 = toggleRepeat (repeatMode s1) True s1;
        s3 = toggleRepeat (repeatMode s2) True s2
    in repeatMode s3 = repeatMode s) \<and>
   repeatMode (toggleRepeat c False s) = repeatMode s \<and>
   repeatMode (toggleRepeat c True (toggleRepeat c True (toggleRepeat c True s))) =
     (case c of Off \<Rightarrow> Track | Track \<Rightarrow> Queue | Queue \<Rightarrow> Off)"
  by (cases "repeatMode s"; cases c) (simp_all add: toggleRepeat_def Let_def)

text \<open>
  Claim C7 as stated fails, in two ways: three invocations from off that all resolve and
  were made from the same render end at track; three invocations from off, each from the
  render of the current state, the first of which the player rejects, end at queue.
\<close>

theorem toggleRepeat_counterexample:
  "repeatMode (toggleRepeat Off True (toggleRepeat Off True (toggleRepeat Off True
     \<lparr>currentTrack = None :: nat option, isPlaying = False, playlist = [], shuffle = False,
      repeatMode = Off, player_calls = []\<rparr>))) = Track \<and>
   repeatMode (toggleRepeat Track True (toggleRepeat Off True (toggleRepeat Off False
     \<lparr>currentTrack = None :: nat option, isPlaying = False, playlist = [], shuffle = False,
      repeatMode = Off, player_calls = []\<rparr>))) = Queue"
  by (simp add: toggleRepeat_def Let_def)

text \<open>
  Claim C8. \<open>toggleShuffle\<close> negates the shuffle flag and leaves the playlist, the current
  track, the playing flag and the repeat mode as they were; it makes no call on the
  player, so the order of playback is not touched.
\<close>

theorem toggleShuffle_frame:
  "shuffle (toggleShuffle s) = (\<not> shuffle s) \<and>
   playlist (toggleShuffle s) = playlist s \<and>
   currentTrack (toggleShuffle s) = currentTrack s \<and>
   isPlaying (toggleShuffle s) = isPlaying s \<and>
   repeatMode (toggleShuffle s) = repeatMode s \<and>
   player_calls (toggleShuffle s) = player_calls s \<and>
   toggleShuffle (toggleShuffle s) = s"
  by (simp add: toggleShuffle_def)

text \<open>
  Claim C10. When both player calls of \<open>setPlaylist\<close> resolve, the playlist becomes the
  list passed; the current track becomes its first track when the list is not empty and
  stays as it was when the list is empty.
\<close>

theorem setPlaylist_success:
  assumes "setPlaylist True True tracks s = s'"
  shows "playlist s' = tracks \<and>
         (tracks \<noteq> [] \<longrightarrow> currentTrack s' = Some (hd tracks)) \<and>
         (tracks = [] \<longrightarrow> currentTrack s' = currentTrack s)"
  using assms by (cases tracks) (auto simp: setPlaylist_def Let_def)

text \<open>
  \<open>setPlaylist\<close> on three tracks and on no track.
\<close>

theorem setPlaylist_success_witness:
  "playlist (setPlaylist True True [3, 5, 8 :: nat]
       \<lparr>currentTrack = Some 1, isPlaying = False, playlist = [1], shuffle = False,
        repeatMode = Off, player_calls = []\<rparr>) = [3, 5, 8] \<and>
   currentTrack (setPlaylist True True [3, 5, 8 :: nat]
       \<lparr>currentTrack = Some 1, isPlaying = False, playlist = [1], shuffle = False,
        repeatMode = Off, player_calls = []\<rparr>) = Some 3 \<and>
   playlist (setPlaylist True True ([] :: nat list)
       \<lparr>currentTrack = Some 1, isPlaying = False, playlist = [1], shuffle = False,
        repeatMode = Off, player_calls = []\<rparr>) = [] \<and>
   currentTrack (setPlaylist True True ([] :: nat list)
       \<lparr>currentTrack = Some 1, isPlaying = False, playlist = [1], shuffle = False,
        repeatMode = Off, player_calls = []\<rparr>) = Some 1"
  using setPlaylist_success [OF refl, where tracks = "[3, 5, 8 :: nat]"
      and s = "\<lparr>currentTrack = Some 1, isPlaying = False, playlist = [1], shuffle = False,
        repeatMode = Off, player_calls = []\<rparr>"]
    setPlaylist_success [OF refl, where tracks = "[] :: nat list"
      and s = "\<lparr>currentTrack = Some 1, isPlaying = False, playlist = [1], shuffle = False,
        repeatMode = Off, player_calls = []\<rparr>"]
  by simp

subsection \<open>Liking a composition\<close>

text \<open>
  Claim C9 (as amended). With a token and a successful answer to the like request, the
  list keeps its length and order, every entry with the given id whose \<open>like_count\<close> is
  below \<open>2^53\<close> in magnitude has it increased by exactly one and nothing else changed,
  every other entry is unchanged, and no alert is shown. Whatever its magnitude, the
  \<open>like_count\<close> of an entry with the given id becomes the double nearest to its sum with
  one.
\<close>

theorem like_increments_one:
  assumes "truthy_str tok"
    and "handleLikeComposition tok (Inr d) cid cs = (cs', alert)"
  shows "alert = None \<and> length cs' = length cs \<and>
         (\<forall>i < length cs.
            (comp_id (cs ! i) = cid \<and> \<bar>like_count (cs ! i)\<bar> < 2 ^ 53 \<longrightarrow>
               cs' ! i = (cs ! i)\<lparr>like_count := like_count (cs ! i) + 1\<rparr>) \<and>
            (comp_id (cs ! i) = cid \<longrightarrow>
               cs' ! i = (cs ! i)\<lparr>like_count := js_add (like_count (cs ! i)) 1\<rparr>) \<and>
            (comp_id (cs ! i) \<noteq> cid \<longrightarrow> cs' ! i = cs ! i))"
  using assms
  by (auto simp: handleLikeComposition_def ApiService_likeComposition_def js_add_one_safe)

text \<open>
  Liking composition 42 in a list of two.
\<close>

theorem like_increments_one_witness:
  "truthy_str (Some ''t'') \<and>
   length (fst (handleLikeComposition (Some ''t'') (Inr JNull) 42
     [\<lparr>comp_id = 41, title = ''Dawn'', owner = ''ann'', genre = None, duration = 180,
       tempo = 120, key_signature = ''C'', like_count = 3, play_count = 9,
       created_at = ''2024-01-01'', audio_file = None\<rparr>,
      \<lparr>comp_id = 42, title = ''Dusk'', owner = ''bob'', genre = Some ''jazz'', duration = 200,
       tempo = 90, key_signature = ''Am'', like_count = 10, play_count = 30,
       created_at = ''2024-01-02'', audio_file = Some ''dusk.mp3''\<rparr>])) = 2 \<and>
   fst (handleLikeComposition (Some ''t'') (Inr JNull) 42
     [\<lparr>comp_id = 41, title = ''Dawn'', owner = ''ann'', genre = None, duration = 180,
       tempo = 120, key_signature = ''C'', like_count = 3, play_count = 9,
       created_at = ''2024-01-01'', audio_file = None\<rparr>,
      \<lparr>comp_id = 42, title = ''Dusk'', owner = ''bob'', genre = Some ''jazz'', duration = 200,
       tempo = 90, key_signature = ''Am'', like_count = 10, play_count = 30,
       created_at = ''2024-01-02'', audio_file = Some ''dusk.mp3''\<rparr>]) ! 0
   = \<lparr>comp_id = 41, title = ''Dawn'', owner = ''ann'', genre = None, duration = 180,
       tempo = 120, key_signature = ''C'', like_count = 3, play_count = 9,
       created_at = ''2024-01-01'', audio_file = None\<rparr> \<and>
   \<bar>10 :: int\<bar> < 2 ^ 53 \<and>
   fst (handleLikeComposition (Some ''t'') (Inr JNull) 42
     [\<lparr>comp_id = 41, title = ''Dawn'', owner = ''ann'', genre = None, duration = 180,
       tempo = 120, key_signature = ''C'', like_count = 3, play_count = 9,
       created_at = ''2024-01-01'', audio_file = None\<rparr>,
      \<lparr>comp_id = 42, title = ''Dusk'', owner = ''bob'', genre = Some ''jazz'', duration = 200,
       tempo = 90, key_signature = ''Am'', like_count = 10, play_count = 30,
       created_at = ''2024-01-02'', audio_file = Some ''dusk.mp3''\<rparr>]) ! 1
   = \<lparr>comp_id = 42, title = ''Dusk'', owner = ''bob'', genre = Some ''jazz'', duration = 200,
       tempo = 90, key_signature = ''Am'', like_count = 11, play_count = 30,
       created_at = ''2024-01-02'', audio_file = Some ''dusk.mp3''\<rparr>"
proof -
  let ?c1 = "\<lparr>comp_id = 41, title = ''Dawn'', owner = ''ann'', genre = None, duration = 180,
       tempo = 120, key_signature = ''C'', like_count = 3, play_count = 9,
       created_at = ''2024-01-01'', audio_file = None\<rparr>"
  let ?c2 = "\<lparr>comp_id = 42, title = ''Dusk'', owner = ''bob'', genre = Some ''jazz'', duration = 200,
       tempo = 90, key_signature = ''Am'', like_count = 10, play_count = 30,
       created_at = ''2024-01-02'', audio_file = Some ''dusk.mp3''\<rparr>"
  have tok: "truthy_str (Some ''t'')" by simp
  note t = like_increments_one [OF tok prod.collapse [symmetric], of JNull 42 "[?c1, ?c2]"]
  note len = t [THEN conjunct2, THEN conjunct1]
  note all = t [THEN conjunct2, THEN conjunct2]
  have i0: "(0::nat) < length [?c1, ?c2]" by simp
  have i1: "(1::nat) < length [?c1, ?c2]" by simp
  note a0 = all [THEN spec, THEN mp, OF i0, THEN conjunct2, THEN conjunct2]
  note a1 = all [THEN spec, THEN mp, OF i1, THEN conjunct1]
  show ?thesis using tok len a0 a1 by simp
qed

text \<open>
  Claim C9 as stated fails: a \<open>like_count\<close> of \<open>2^53\<close> is left as it is, since the
  sum with one is not a double and rounds back to it.
\<close>

theorem like_at_two_to_53_counterexample:
  "map like_count (fst (handleLikeComposition (Some ''t'') (Inr JNull) 42
     [\<lparr>comp_id = 42, title = ''Dusk'', owner = ''bob'', genre = None, duration = 200,
       tempo = 90, key_signature = ''Am'', like_count = 9007199254740992, play_count = 30,
       created_at = ''2024-01-02'', audio_file = None\<rparr>]))
   = [9007199254740992]"
  by (simp add: handleLikeComposition_def ApiService_likeComposition_def js_add_def
      round_double_def Let_def ulp.simps)

end
